theory Spec2Isabelle
  imports Main "HOL-Library.Word" "HOL-Library.Numeral_Type"
begin

section \<open>Byte slices and fixed-size byte arrays\<close>

text \<open>
  A Go \<^verbatim>\<open>[]byte\<close> is a list of bytes. A Go array \<^verbatim>\<open>[N]byte\<close> is a value
  type of exactly \<open>N\<close> bytes; the length is part of the type, so it is a type of
  its own here, indexed by a numeral type: \<open>32 bytearr\<close> is \<^verbatim>\<open>[32]byte\<close>.
\<close>

type_synonym byte = "8 word"
type_synonym bytes = "byte list"

typedef 'n bytearr = "{bs :: byte list. length bs = CARD('n)}"
  by (rule exI [of _ "replicate CARD('n) 0"]) simp

text \<open>\<^verbatim>\<open>a[:]\<close>: the array's bytes as a slice.\<close>

definition slice :: "'n bytearr \<Rightarrow> bytes" where
  "slice a = Rep_bytearr a"

text \<open>\<^verbatim>\<open>var a [N]byte\<close>: Go's zero value.\<close>

definition zero_arr :: "'n bytearr" where
  "zero_arr = Abs_bytearr (replicate CARD('n) 0)"

text \<open>
  \<^verbatim>\<open>copy(dst[:], src)\<close>: copies \<open>min (len dst) (len src)\<close> bytes to the front of
  \<open>dst\<close> and leaves the rest of \<open>dst\<close> as it was. The array is a value, so the
  updated array is returned.
\<close>

definition copy :: "'n bytearr \<Rightarrow> bytes \<Rightarrow> 'n bytearr" where
  "copy dst src =
     Abs_bytearr (take (length (slice dst)) src @ drop (length src) (slice dst))"

type_synonym VrfPrivkey = "64 bytearr"
type_synonym VrfPubkey = "32 bytearr"
type_synonym VrfProof = "80 bytearr"
type_synonym VrfOutput = "64 bytearr"
type_synonym Seed = "32 bytearr"

section \<open>Package cgovrf: libsodium through cgo\<close>

text \<open>
  The C functions of \<^verbatim>\<open>sodium.h\<close> that package cgovrf calls. Their code is not part
  of the Go sources, so they are parameters of the model. A C function that writes
  through an out pointer takes the buffer's contents before the call and returns its
  contents after it, next to the C return code. A message pointer is \<open>None\<close> for
  \<^verbatim>\<open>C.NULL\<close> and \<open>Some bs\<close> for the address of the first byte of \<open>bs\<close>; the length
  goes in its own argument, as in C. \<^verbatim>\<open>crypto_vrf_keypair\<close> draws its seed from the
  system's random source; what it draws is its last argument.
\<close>

record libsodium =
  crypto_vrf_keypair_from_seed :: "VrfPubkey \<Rightarrow> VrfPrivkey \<Rightarrow> Seed \<Rightarrow> VrfPubkey \<times> VrfPrivkey"
  crypto_vrf_keypair :: "VrfPubkey \<Rightarrow> VrfPrivkey \<Rightarrow> Seed \<Rightarrow> VrfPubkey \<times> VrfPrivkey"
  crypto_vrf_sk_to_pk :: "VrfPubkey \<Rightarrow> VrfPrivkey \<Rightarrow> VrfPubkey"
  crypto_vrf_prove :: "VrfProof \<Rightarrow> VrfPrivkey \<Rightarrow> bytes option \<Rightarrow> nat \<Rightarrow> int \<times> VrfProof"
  crypto_vrf_proof_to_hash :: "VrfOutput \<Rightarrow> VrfProof \<Rightarrow> int \<times> VrfOutput"
  crypto_vrf_verify :: "VrfOutput \<Rightarrow> VrfPubkey \<Rightarrow> VrfProof \<Rightarrow> bytes option \<Rightarrow> nat \<Rightarrow> int \<times> VrfOutput"

text \<open>
  A Go panic is the value \<open>None\<close>. \<^verbatim>\<open>&msg[0]\<close> panics (index out of range) on a
  slice of length zero and is the address of the slice's bytes otherwise.
\<close>

definition addr_of_first :: "bytes \<Rightarrow> bytes option option" where
  "addr_of_first msg = (if length msg = 0 then None else Some (Some msg))"

text \<open>cgovrf.VrfKeygenFromSeed\<close>

definition cgovrf_VrfKeygenFromSeed :: "libsodium \<Rightarrow> Seed \<Rightarrow> VrfPubkey \<times> VrfPrivkey" where
  "cgovrf_VrfKeygenFromSeed c seed = crypto_vrf_keypair_from_seed c zero_arr zero_arr seed"

text \<open>cgovrf.VrfKeygen; \<open>rnd\<close> is what the C library draws from the random source.\<close>

definition cgovrf_VrfKeygen :: "libsodium \<Rightarrow> Seed \<Rightarrow> VrfPubkey \<times> VrfPrivkey" where
  "cgovrf_VrfKeygen c rnd = crypto_vrf_keypair c zero_arr zero_arr rnd"

text \<open>cgovrf.VrfPrivkey.Pubkey\<close>

definition cgovrf_Pubkey :: "libsodium \<Rightarrow> VrfPrivkey \<Rightarrow> VrfPubkey" where
  "cgovrf_Pubkey c sk = crypto_vrf_sk_to_pk c zero_arr sk"

text \<open>cgovrf.VrfPrivkey.ProveBytes\<close>

definition cgovrf_ProveBytes :: "libsodium \<Rightarrow> VrfPrivkey \<Rightarrow> bytes \<Rightarrow> (VrfProof \<times> bool) option" where
  "cgovrf_ProveBytes c sk msg =
     (case (if length msg \<noteq> 0 then addr_of_first msg else Some None) of
        None \<Rightarrow> None
      | Some m \<Rightarrow>
          (let (ret, proof) = crypto_vrf_prove c zero_arr sk m (length msg)
           in Some (proof, ret = 0)))"

text \<open>cgovrf.VrfProof.Hash\<close>

definition cgovrf_Hash :: "libsodium \<Rightarrow> VrfProof \<Rightarrow> VrfOutput \<times> bool" where
  "cgovrf_Hash c proof =
     (let (ret, hash) = crypto_vrf_proof_to_hash c zero_arr proof in (hash, ret = 0))"

text \<open>cgovrf.VrfPubkey.VerifyBytes\<close>

definition cgovrf_VerifyBytes ::
  "libsodium \<Rightarrow> VrfPubkey \<Rightarrow> VrfProof \<Rightarrow> bytes \<Rightarrow> (bool \<times> VrfOutput) option" where
  "cgovrf_VerifyBytes c pk proof msg =
     (let out = zero_arr in
      case (if length msg \<noteq> 0 then addr_of_first msg else Some None) of
        None \<Rightarrow> None
      | Some m \<Rightarrow>
          (let (ret, out') = crypto_vrf_verify c out pk proof m (length msg)
           in Some (ret = 0, out')))"

section \<open>The pure Go implementation\<close>

text \<open>
  \<^verbatim>\<open>VrfKeygenFromSeedGo\<close>, \<^verbatim>\<open>proveBytesGo\<close> and \<^verbatim>\<open>verifyBytesGo\<close> are called by
  the selector and by the tests; their file is not among the sources, so they are
  parameters too.
\<close>

record govrf =
  VrfKeygenFromSeedGo :: "Seed \<Rightarrow> VrfPubkey \<times> VrfPrivkey"
  proveBytesGo :: "VrfPrivkey \<Rightarrow> bytes \<Rightarrow> VrfProof \<times> bool"
  verifyBytesGo :: "VrfPubkey \<Rightarrow> VrfProof \<Rightarrow> bytes \<Rightarrow> bool \<times> VrfOutput"

section \<open>The selector (package crypto)\<close>

text \<open>
  The package variable \<^verbatim>\<open>useGoImplementation\<close> is the selector's state. The mutex
  serialises access to it and has no effect on values, so a call reads the flag's
  current value. Go initialises the flag to \<open>False\<close>.
\<close>

record selector =
  useGoImplementation :: bool

definition init_selector :: selector where
  "init_selector = \<lparr>useGoImplementation = False\<rparr>"

definition SetUseGoImplementation :: "bool \<Rightarrow> selector \<Rightarrow> selector" where
  "SetUseGoImplementation useGo st = st\<lparr>useGoImplementation := useGo\<rparr>"

definition VrfKeygenFromSeed ::
  "libsodium \<Rightarrow> govrf \<Rightarrow> selector \<Rightarrow> Seed \<Rightarrow> VrfPubkey \<times> VrfPrivkey" where
  "VrfKeygenFromSeed c g st seed =
     (if useGoImplementation st then VrfKeygenFromSeedGo g seed
      else (let (cPub, cPriv) = cgovrf_VrfKeygenFromSeed c seed
            in (copy zero_arr (slice cPub), copy zero_arr (slice cPriv))))"

text \<open>
  \<^verbatim>\<open>VrfKeygen\<close>: \<open>rnd\<close> is what the system's random source yields for 32 bytes,
  \<open>None\<close> when reading it fails. The Go branch reads it itself and panics on
  failure; the C branch leaves the reading to the library, which does not return
  a key pair without it either.
\<close>

definition VrfKeygen ::
  "libsodium \<Rightarrow> govrf \<Rightarrow> selector \<Rightarrow> Seed option \<Rightarrow> (VrfPubkey \<times> VrfPrivkey) option" where
  "VrfKeygen c g st rnd =
     (if useGoImplementation st then
        (case rnd of
           None \<Rightarrow> None
         | Some r \<Rightarrow> (let seed = copy zero_arr (slice r) in Some (VrfKeygenFromSeedGo g seed)))
      else
        (case rnd of
           None \<Rightarrow> None
         | Some r \<Rightarrow>
             (let (cPub, cPriv) = cgovrf_VrfKeygen c r
              in Some (copy zero_arr (slice cPub), copy zero_arr (slice cPriv)))))"

definition Pubkey :: "libsodium \<Rightarrow> selector \<Rightarrow> VrfPrivkey \<Rightarrow> VrfPubkey" where
  "Pubkey c st sk =
     (if useGoImplementation st then copy zero_arr (drop 32 (slice sk))
      else (let cSk = copy zero_arr (slice sk);
                cPk = cgovrf_Pubkey c cSk
            in copy zero_arr (slice cPk)))"

definition proveBytes ::
  "libsodium \<Rightarrow> govrf \<Rightarrow> selector \<Rightarrow> VrfPrivkey \<Rightarrow> bytes \<Rightarrow> (VrfProof \<times> bool) option" where
  "proveBytes c g st sk msg =
     (if useGoImplementation st then Some (proveBytesGo g sk msg)
      else (let cSk = copy zero_arr (slice sk) in
            case cgovrf_ProveBytes c cSk msg of
              None \<Rightarrow> None
            | Some (cProof, cOk) \<Rightarrow> Some (copy zero_arr (slice cProof), cOk)))"

definition Hash :: "libsodium \<Rightarrow> selector \<Rightarrow> VrfProof \<Rightarrow> VrfOutput \<times> bool" where
  "Hash c st proof =
     (let cProof = copy zero_arr (slice proof);
          (cHash, cOk) = cgovrf_Hash c cProof
      in (copy zero_arr (slice cHash), cOk))"

definition verifyBytes ::
  "libsodium \<Rightarrow> govrf \<Rightarrow> selector \<Rightarrow> VrfPubkey \<Rightarrow> VrfProof \<Rightarrow> bytes \<Rightarrow> (bool \<times> VrfOutput) option" where
  "verifyBytes c g st pk proof msg =
     (if useGoImplementation st then Some (verifyBytesGo g pk proof msg)
      else (let cPk = copy zero_arr (slice pk);
                cProof = copy zero_arr (slice proof) in
            case cgovrf_VerifyBytes c cPk cProof msg of
              None \<Rightarrow> None
            | Some (cOk, cOut) \<Rightarrow> Some (cOk, copy zero_arr (slice cOut))))"

text \<open>
  \<^verbatim>\<open>validateGoVerify\<close> is a package variable holding an optional function without
  results. It receives copies of the arrays and of \<open>ok\<close>; being Go code it may
  change the package's state or panic (\<open>None\<close>). \<^verbatim>\<open>HashRep\<close> belongs to the
  encoding collaborator and is a parameter.
\<close>

type_synonym 'm hook =
  "VrfPubkey \<Rightarrow> VrfProof \<Rightarrow> 'm \<Rightarrow> bool \<Rightarrow> VrfOutput \<Rightarrow> selector \<Rightarrow> selector option"

definition Verify ::
  "libsodium \<Rightarrow> govrf \<Rightarrow> ('m \<Rightarrow> bytes) \<Rightarrow> 'm hook option \<Rightarrow> selector \<Rightarrow>
   VrfPubkey \<Rightarrow> VrfProof \<Rightarrow> 'm \<Rightarrow> ((bool \<times> VrfOutput) \<times> selector) option" where
  "Verify c g HashRep validateGoVerify st pk p message =
     (let msgBytes = HashRep message in
      case verifyBytes c g st pk p msgBytes of
        None \<Rightarrow> None
      | Some (ok, out) \<Rightarrow>
          (case validateGoVerify of
             None \<Rightarrow> Some ((ok, out), st)
           | Some h \<Rightarrow>
               (case h pk p message ok out st of
                  None \<Rightarrow> None
                | Some st' \<Rightarrow> Some ((ok, out), st'))))"

section \<open>The golden-file test\<close>

text \<open>
  What the test takes from Go's standard library is a parameter: the seeded
  generator of \<^verbatim>\<open>math/rand\<close> (its state is \<open>'r\<close>; \<open>Read r n\<close> fills a buffer of
  \<open>n\<close> bytes and is \<open>None\<close> on an error), \<^verbatim>\<open>encoding/json\<close>, and \<^verbatim>\<open>fmt.Sscanf\<close>
  with the verb \<^verbatim>\<open>%x\<close>.
\<close>

record VRFTestVector =
  PublicKey :: string
  Message :: string
  GoProof :: string
  CProof :: string
  GoVerifyOut :: string
  CVerifyOut :: string

record VRFGoldenTests =
  Vectors :: "VRFTestVector list"

record 'r stdlib =
  NewSource :: "int \<Rightarrow> 'r"
  Read :: "'r \<Rightarrow> nat \<Rightarrow> (bytes \<times> 'r) option"
  json_MarshalIndent :: "VRFGoldenTests \<Rightarrow> bytes option"
  json_Unmarshal :: "bytes \<Rightarrow> VRFGoldenTests option"
  Sscanf_hex :: "string \<Rightarrow> bytes option"

text \<open>
  The file system: a path holds nothing, a readable file, or something that
  \<^verbatim>\<open>os.Stat\<close> finds but \<^verbatim>\<open>os.ReadFile\<close> cannot read. \<^verbatim>\<open>os.WriteFile\<close> succeeds
  on the paths that are \<open>writable\<close>; on the others it fails when it opens the
  file (a missing directory, no permission) and nothing is written.
\<close>

datatype node = File bytes | Unreadable

record os_state =
  nodes :: "string \<Rightarrow> node option"
  writable :: "string \<Rightarrow> bool"


definition ReadFile :: "os_state \<Rightarrow> string \<Rightarrow> bytes option" where
  "ReadFile os path = (case nodes os path of Some (File d) \<Rightarrow> Some d | _ \<Rightarrow> None)"

definition WriteFile :: "os_state \<Rightarrow> string \<Rightarrow> bytes \<Rightarrow> os_state option" where
  "WriteFile os path d =
     (if writable os path then Some (os\<lparr>nodes := (nodes os)(path \<mapsto> File d)\<rparr>) else None)"


datatype 'a outcome = is_Done: Done (the_Done: 'a) | Fatal string | Panic

text \<open>\<^verbatim>\<open>fmt.Sprintf("%x", data)\<close>: two lower-case hexadecimal digits for each byte.\<close>

definition hex_digit :: "nat \<Rightarrow> char" where
  "hex_digit d = ''0123456789abcdef'' ! d"

definition bytesToHex :: "bytes \<Rightarrow> string" where
  "bytesToHex data = concat (map (\<lambda>b. [hex_digit (unat b div 16), hex_digit (unat b mod 16)]) data)"

text \<open>
  The first loop of \<^verbatim>\<open>generateAndSaveGoldenFile\<close>: for each index a key pair from
  \<^verbatim>\<open>VrfKeygen()\<close> and 32 bytes from the seeded generator. \<open>rnd i\<close> is what the
  system's random source yields to the \<open>i\<close>-th call of \<^verbatim>\<open>VrfKeygen\<close>.
\<close>

fun gen_keys_msgs ::
  "libsodium \<Rightarrow> govrf \<Rightarrow> 'r stdlib \<Rightarrow> selector \<Rightarrow> (nat \<Rightarrow> Seed option) \<Rightarrow> 'r \<Rightarrow> nat list \<Rightarrow>
   ((VrfPubkey \<times> VrfPrivkey) \<times> bytes) list outcome" where
  "gen_keys_msgs c g lib st rnd r [] = Done []"
| "gen_keys_msgs c g lib st rnd r (i # rest) =
     (case VrfKeygen c g st (rnd i) of
        None \<Rightarrow> Panic
      | Some (pk, sk) \<Rightarrow>
          (case Read lib r 32 of
             None \<Rightarrow> Fatal ''Failed to generate random message''
           | Some (msg, r') \<Rightarrow>
               (case gen_keys_msgs c g lib st rnd r' rest of
                  Done kms \<Rightarrow> Done (((pk, sk), msg) # kms)
                | Fatal e \<Rightarrow> Fatal e
                | Panic \<Rightarrow> Panic)))"

text \<open>
  The second loop: for each index the proof and output through the selector
  (\<^verbatim>\<open>proveBytes\<close>, \<^verbatim>\<open>verifyBytes\<close>), then through the Go functions.
\<close>

fun gen_proofs ::
  "libsodium \<Rightarrow> govrf \<Rightarrow> selector \<Rightarrow> ((VrfPubkey \<times> VrfPrivkey) \<times> bytes) list \<Rightarrow>
   ((VrfProof \<times> VrfOutput) \<times> (VrfProof \<times> VrfOutput)) list outcome" where
  "gen_proofs c g st [] = Done []"
| "gen_proofs c g st (((pk, sk), msg) # rest) =
     (case proveBytes c g st sk msg of
        None \<Rightarrow> Panic
      | Some (cProof, ok) \<Rightarrow>
          if \<not> ok then Fatal ''C proof generation failed for vector'' else
          (case verifyBytes c g st pk cProof msg of
             None \<Rightarrow> Panic
           | Some (ok2, cOut) \<Rightarrow>
               if \<not> ok2 then Fatal ''C verification failed for vector'' else
               (let (goProof, ok3) = proveBytesGo g sk msg in
                if \<not> ok3 then Fatal ''Go proof generation failed for vector'' else
                (let (ok4, goOut) = verifyBytesGo g pk goProof msg in
                 if \<not> ok4 then Fatal ''Go verification failed for vector'' else
                 (case gen_proofs c g st rest of
                    Done prs \<Rightarrow> Done (((cProof, cOut), (goProof, goOut)) # prs)
                  | Fatal e \<Rightarrow> Fatal e
                  | Panic \<Rightarrow> Panic)))))"

text \<open>The third loop: one vector of hexadecimal strings for each index.\<close>

definition make_vector ::
  "((VrfPubkey \<times> VrfPrivkey) \<times> bytes) \<Rightarrow> ((VrfProof \<times> VrfOutput) \<times> (VrfProof \<times> VrfOutput)) \<Rightarrow>
   VRFTestVector" where
  "make_vector km pr =
     \<lparr>PublicKey = bytesToHex (slice (fst (fst km))),
      Message = bytesToHex (snd km),
      GoProof = bytesToHex (slice (fst (snd pr))),
      CProof = bytesToHex (slice (fst (fst pr))),
      GoVerifyOut = bytesToHex (slice (snd (snd pr))),
      CVerifyOut = bytesToHex (slice (snd (fst pr)))\<rparr>"

text \<open>The three loops of \<^verbatim>\<open>generateAndSaveGoldenFile\<close>: the document it then saves.\<close>

definition golden_vectors ::
  "libsodium \<Rightarrow> govrf \<Rightarrow> 'r stdlib \<Rightarrow> selector \<Rightarrow> (nat \<Rightarrow> Seed option) \<Rightarrow> VRFGoldenTests outcome" where
  "golden_vectors c g lib st rnd =
     (let n = 10; randSource = NewSource lib 42 in
      case gen_keys_msgs c g lib st rnd randSource [0..<n] of
        Fatal e \<Rightarrow> Fatal e
      | Panic \<Rightarrow> Panic
      | Done kms \<Rightarrow>
          (case gen_proofs c g st kms of
             Fatal e \<Rightarrow> Fatal e
           | Panic \<Rightarrow> Panic
           | Done prs \<Rightarrow> Done \<lparr>Vectors = map2 make_vector kms prs\<rparr>))"

definition generateAndSaveGoldenFile ::
  "libsodium \<Rightarrow> govrf \<Rightarrow> 'r stdlib \<Rightarrow> selector \<Rightarrow> (nat \<Rightarrow> Seed option) \<Rightarrow> os_state \<Rightarrow> string \<Rightarrow>
   os_state outcome" where
  "generateAndSaveGoldenFile c g lib st rnd os path =
     (case golden_vectors c g lib st rnd of
        Fatal e \<Rightarrow> Fatal e
      | Panic \<Rightarrow> Panic
      | Done goldenTests \<Rightarrow>
          (case json_MarshalIndent lib goldenTests of
             None \<Rightarrow> Fatal ''Failed to marshal test vectors''
           | Some d \<Rightarrow>
               (case WriteFile os path d of
                  None \<Rightarrow> Fatal ''Failed to write golden file''
                | Some os' \<Rightarrow> Done os')))"




definition goldenPath :: string where
  "goldenPath = ''testdata/vrf_vectors.json''"



text \<open>The fixture a run leaves behind, if it leaves one.\<close>

definition saved_fixture :: "os_state outcome \<Rightarrow> bytes option" where
  "saved_fixture r = (case r of Done os \<Rightarrow> ReadFile os goldenPath | _ \<Rightarrow> None)"

text \<open>The messages the seeded generator yields: \<open>n\<close> reads of 32 bytes, one after the other.\<close>

fun prng_reads :: "'r stdlib \<Rightarrow> 'r \<Rightarrow> nat \<Rightarrow> bytes list" where
  "prng_reads lib r 0 = []"
| "prng_reads lib r (Suc n) =
     (case Read lib r 32 of None \<Rightarrow> [] | Some (msg, r') \<Rightarrow> msg # prng_reads lib r' n)"

section \<open>The ECVRF engine\<close>

text \<open>
  Modelled from the spec: the elliptic-curve arithmetic and the hash functions of
  the engine (the C library's \<^verbatim>\<open>crypto_vrf_*\<close> functions and the Go file with
  \<^verbatim>\<open>VrfKeygenFromSeedGo\<close>, \<^verbatim>\<open>proveBytesGo\<close> and \<^verbatim>\<open>verifyBytesGo\<close>) are not among
  the sources. The spec names the operations the engine is built from without
  fixing them, so they are the fields of a record: the group of curve points
  (\<open>'p\<close>) with its generator, the prime order of the generator and the
  cofactor, point compression to 32 bytes and decompression, the expansion of a
  seed into the clamped secret scalar, the hash-to-curve function, the nonce
  derivation from the secret scalar and the point \<open>H\<close>, the truncated (16 byte)
  challenge hash over a list of points, and the domain-separated hash of a
  compressed point that gives the 64-byte output.
\<close>

record 'p curve =
  add :: "'p \<Rightarrow> 'p \<Rightarrow> 'p"
  neg :: "'p \<Rightarrow> 'p"
  ident :: "'p"
  gen :: "'p"
  order :: nat
  cofactor :: nat
  compress :: "'p \<Rightarrow> 32 bytearr"
  decompress :: "32 bytearr \<Rightarrow> 'p option"
  expand_seed :: "Seed \<Rightarrow> nat"
  hash_to_curve :: "bytes \<Rightarrow> 'p"
  nonce :: "nat \<Rightarrow> 'p \<Rightarrow> nat"
  challenge :: "'p list \<Rightarrow> 16 bytearr"
  output_hash :: "32 bytearr \<Rightarrow> VrfOutput"

text \<open>Scalar multiplication \<open>n\<cdot>P\<close> and the difference of two points.\<close>

fun smul :: "'p curve \<Rightarrow> nat \<Rightarrow> 'p \<Rightarrow> 'p" where
  "smul cv 0 P = ident cv"
| "smul cv (Suc n) P = add cv P (smul cv n P)"

definition sub :: "'p curve \<Rightarrow> 'p \<Rightarrow> 'p \<Rightarrow> 'p" where
  "sub cv P Q = add cv P (neg cv Q)"

text \<open>
  Modelled from the spec: a point carries no torsion when the prime order of the
  generator annihilates it.
\<close>

definition torsion_free :: "'p curve \<Rightarrow> 'p \<Rightarrow> bool" where
  "torsion_free cv P = (smul cv (order cv) P = ident cv)"

text \<open>Scalars on the wire: little-endian, \<open>k\<close> bytes.\<close>

fun le_encode :: "nat \<Rightarrow> nat \<Rightarrow> bytes" where
  "le_encode 0 n = []"
| "le_encode (Suc k) n = of_nat (n mod 256) # le_encode k (n div 256)"

fun le_decode :: "bytes \<Rightarrow> nat" where
  "le_decode [] = 0"
| "le_decode (b # bs) = unat b + 256 * le_decode bs"

text \<open>
  Modelled from the spec: \<^verbatim>\<open>KeygenFromSeed\<close> (section 4.1) "expands the seed into
  a clamped scalar, computes the corresponding curve point, compresses it into
  the PublicKey, and returns PrivateKey = seed || PublicKey".
\<close>

definition spec_KeygenFromSeed :: "'p curve \<Rightarrow> Seed \<Rightarrow> VrfPubkey \<times> VrfPrivkey" where
  "spec_KeygenFromSeed cv seed =
     (let x = expand_seed cv seed;
          Y = smul cv x (gen cv);
          pk = compress cv Y
      in (pk, copy zero_arr (slice seed @ slice pk)))"

text \<open>
  Modelled from the spec: \<^verbatim>\<open>Pubkey\<close> is the "pure extraction of the trailing 32
  bytes; no curve computation".
\<close>

definition spec_Pubkey :: "VrfPrivkey \<Rightarrow> VrfPubkey" where
  "spec_Pubkey sk = copy zero_arr (drop 32 (slice sk))"


text \<open>
  Modelled from the spec: \<^verbatim>\<open>Prove\<close> (section 4.1). \<open>H\<close> is the message hashed to the
  curve; the nonce \<open>k\<close> is derived from the secret scalar \<open>x\<close> and \<open>H\<close>; the
  commitments are \<open>k\<cdot>G\<close> and \<open>k\<cdot>H\<close>; the challenge \<open>c\<close> is the truncated hash
  over the generator, the public key, \<open>H\<close>, \<open>Gamma\<close> and the two commitments; the
  response is \<open>s = k + c\<cdot>x mod order\<close>; the proof is \<open>Gamma || c || s\<close>. \<open>Gamma\<close>
  is the image of \<open>H\<close> under the secret scalar, as the glossary defines it and as
  the commitment \<open>s\<cdot>H - c\<cdot>Gamma\<close> that \<^verbatim>\<open>VerifyBytes\<close> reconstructs requires
  (section 4.1 writes "Gamma = nonce\<cdot>H" in passing). The secret is not usable,
  and \<open>ok\<close> is false, when its public point is the identity.
\<close>

definition spec_Prove :: "'p curve \<Rightarrow> VrfPrivkey \<Rightarrow> bytes \<Rightarrow> VrfProof \<times> bool" where
  "spec_Prove cv sk msg =
     (let x = expand_seed cv (copy zero_arr (take 32 (slice sk)));
          Y = smul cv x (gen cv)
      in if Y = ident cv then (zero_arr, False)
         else
           (let H = hash_to_curve cv msg;
                Gamma = smul cv x H;
                k = nonce cv x H;
                c = challenge cv [gen cv, Y, H, Gamma, smul cv k (gen cv), smul cv k H];
                s = (k + le_decode (slice c) * x) mod order cv
            in (copy zero_arr (slice (compress cv Gamma) @ slice c @ le_encode 32 s), True)))"

text \<open>
  Modelled from the spec: \<^verbatim>\<open>Hash\<close> (section 4.1) "decompresses Gamma from the
  proof; if decompression fails or the point carries unwanted torsion, returns
  ok=false; otherwise clears the cofactor and hashes the cofactor-cleared,
  compressed point".
\<close>

definition spec_Hash :: "'p curve \<Rightarrow> VrfProof \<Rightarrow> VrfOutput \<times> bool" where
  "spec_Hash cv proof =
     (case decompress cv (copy zero_arr (take 32 (slice proof))) of
        None \<Rightarrow> (zero_arr, False)
      | Some Gamma \<Rightarrow>
          if \<not> torsion_free cv Gamma then (zero_arr, False)
          else (output_hash cv (compress cv (smul cv (cofactor cv) Gamma)), True))"

text \<open>
  Modelled from the spec: \<^verbatim>\<open>VerifyBytes\<close> (section 4.1) "decompresses the
  PublicKey to point Y and Gamma from the proof; rejects immediately (ok=false,
  Output=zero) if either decompression fails, if Y or Gamma is the identity
  element, or if Gamma carries disallowed torsion", recomputes \<open>H\<close>, reconstructs
  the commitments \<open>s\<cdot>G - c\<cdot>Y\<close> and \<open>s\<cdot>H - c\<cdot>Gamma\<close>, recomputes the challenge
  and compares it with the proof's; "on ok=true, Output = Hash(Proof)".
\<close>

definition spec_VerifyBytes :: "'p curve \<Rightarrow> VrfPubkey \<Rightarrow> VrfProof \<Rightarrow> bytes \<Rightarrow> bool \<times> VrfOutput" where
  "spec_VerifyBytes cv pk proof msg =
     (case decompress cv pk of
        None \<Rightarrow> (False, zero_arr)
      | Some Y \<Rightarrow>
          (case decompress cv (copy zero_arr (take 32 (slice proof))) of
             None \<Rightarrow> (False, zero_arr)
           | Some Gamma \<Rightarrow>
               if Y = ident cv \<or> Gamma = ident cv \<or> \<not> torsion_free cv Gamma then (False, zero_arr)
               else
                 (let H = hash_to_curve cv msg;
                      c = (copy zero_arr (take 16 (drop 32 (slice proof))) :: 16 bytearr);
                      s = le_decode (drop 48 (slice proof));
                      U = sub cv (smul cv s (gen cv)) (smul cv (le_decode (slice c)) Y);
                      V = sub cv (smul cv s H) (smul cv (le_decode (slice c)) Gamma);
                      c' = challenge cv [gen cv, Y, H, Gamma, U, V]
                  in if c' = c then (True, fst (spec_Hash cv proof)) else (False, zero_arr))))"


text \<open>
  Modelled from the spec: the two backends as instances of the one engine the
  spec describes. A C function reads \<open>mlen\<close> bytes at its message pointer,
  returns 0 on success and \<open>-1\<close> otherwise, and writes its out buffer on success
  only. \<^verbatim>\<open>Keygen\<close> "draws 32 bytes from a cryptographically secure random source
  and delegates to KeygenFromSeed".
\<close>

definition ptr_bytes :: "bytes option \<Rightarrow> nat \<Rightarrow> bytes" where
  "ptr_bytes m mlen = take mlen (case m of None \<Rightarrow> [] | Some bs \<Rightarrow> bs)"

definition spec_sodium :: "'p curve \<Rightarrow> libsodium" where
  "spec_sodium cv =
     \<lparr>crypto_vrf_keypair_from_seed = (\<lambda>pk sk seed. spec_KeygenFromSeed cv seed),
      crypto_vrf_keypair = (\<lambda>pk sk rnd. spec_KeygenFromSeed cv rnd),
      crypto_vrf_sk_to_pk = (\<lambda>pk sk. spec_Pubkey sk),
      crypto_vrf_prove = (\<lambda>proof sk m mlen.
         let (p, ok) = spec_Prove cv sk (ptr_bytes m mlen) in if ok then (0, p) else (- 1, proof)),
      crypto_vrf_proof_to_hash = (\<lambda>out proof.
         let (h, ok) = spec_Hash cv proof in if ok then (0, h) else (- 1, out)),
      crypto_vrf_verify = (\<lambda>out pk proof m mlen.
         let (ok, h) = spec_VerifyBytes cv pk proof (ptr_bytes m mlen)
         in if ok then (0, h) else (- 1, out))\<rparr>"

definition spec_go :: "'p curve \<Rightarrow> govrf" where
  "spec_go cv =
     \<lparr>VrfKeygenFromSeedGo = spec_KeygenFromSeed cv,
      proveBytesGo = spec_Prove cv,
      verifyBytesGo = spec_VerifyBytes cv\<rparr>"

section \<open>Stand-in backends for concrete evaluation\<close>

text \<open>
  Two backends that stand in for the C library and for the Go implementation
  where a statement is evaluated at a concrete input. Their key pair is the seed
  followed by itself; every other output is filled with one given byte.
\<close>

definition fill :: "byte \<Rightarrow> 'n bytearr" where
  "fill b = copy zero_arr (replicate CARD('n) b)"

definition stub_sodium :: "byte \<Rightarrow> libsodium" where
  "stub_sodium b =
     \<lparr>crypto_vrf_keypair_from_seed = (\<lambda>pk sk seed. (copy pk (slice seed), copy sk (slice seed @ slice seed))),
      crypto_vrf_keypair = (\<lambda>pk sk rnd. (copy pk (slice rnd), copy sk (slice rnd @ slice rnd))),
      crypto_vrf_sk_to_pk = (\<lambda>pk sk. copy pk (drop 32 (slice sk))),
      crypto_vrf_prove = (\<lambda>proof sk m mlen. (0, fill b)),
      crypto_vrf_proof_to_hash = (\<lambda>out proof. (0, fill b)),
      crypto_vrf_verify = (\<lambda>out pk proof m mlen. (0, fill b))\<rparr>"

definition stub_go :: "byte \<Rightarrow> govrf" where
  "stub_go b =
     \<lparr>VrfKeygenFromSeedGo = (\<lambda>seed. (copy zero_arr (slice seed), copy zero_arr (slice seed @ slice seed))),
      proveBytesGo = (\<lambda>sk msg. (fill b, True)),
      verifyBytesGo = (\<lambda>pk proof msg. (True, fill b))\<rparr>"

text \<open>
  A stand-in for the standard library: the generator counts up from its seed and
  fills a buffer with its count, the document is written as its fields one after
  the other with a line feed after each, every file reads back as one stored
  vector, and a string scans as its characters' codes.
\<close>

definition chars_to_bytes :: "string \<Rightarrow> bytes" where
  "chars_to_bytes cs = map (\<lambda>ch. of_nat (of_char ch)) cs"

definition stub_marshal :: "VRFGoldenTests \<Rightarrow> bytes" where
  "stub_marshal t =
     concat (map (\<lambda>v. chars_to_bytes (PublicKey v) @ [10] @ chars_to_bytes (Message v) @ [10]
                     @ chars_to_bytes (GoProof v) @ [10] @ chars_to_bytes (CProof v) @ [10]
                     @ chars_to_bytes (GoVerifyOut v) @ [10] @ chars_to_bytes (CVerifyOut v) @ [10])
                 (Vectors t))"

definition stub_vector :: VRFTestVector where
  "stub_vector =
     \<lparr>PublicKey = ''00'', Message = ''01'', GoProof = ''02'', CProof = ''03'',
      GoVerifyOut = ''04'', CVerifyOut = ''05''\<rparr>"

definition stub_stdlib :: "nat stdlib" where
  "stub_stdlib =
     \<lparr>NewSource = (\<lambda>seed. nat seed),
      Read = (\<lambda>r n. Some (replicate n (of_nat r), Suc r)),
      json_MarshalIndent = (\<lambda>t. Some (stub_marshal t)),
      json_Unmarshal = (\<lambda>d. Some \<lparr>Vectors = [stub_vector]\<rparr>),
      Sscanf_hex = (\<lambda>s. if s = [] then None else Some (chars_to_bytes s))\<rparr>"

text \<open>An empty file system where every path can be written, and one with the fixture.\<close>

definition empty_os :: os_state where
  "empty_os = \<lparr>nodes = (\<lambda>p. None), writable = (\<lambda>p. True)\<rparr>"



text \<open>A random source that yields the same byte 32 times at every call.\<close>

definition const_entropy :: "byte \<Rightarrow> nat \<Rightarrow> Seed option" where
  "const_entropy b i = Some (fill b)"

text \<open>
  A small curve for concrete evaluation: the cyclic group of order \<open>104 = 8 \<cdot> 13\<close>,
  with cofactor 8 and the generator 8 of prime order 13. A point is compressed
  to its number in the first byte; seeds and messages are hashed by their first
  byte and by the sum of their bytes.
\<close>

typedef z104 = "{n :: nat. n < 104}"
  by (rule exI [of _ 0]) simp

setup_lifting type_definition_z104

lift_definition z_val :: "z104 \<Rightarrow> nat" is "\<lambda>n. n" .

lift_definition z_of_nat :: "nat \<Rightarrow> z104" is "\<lambda>n. n mod 104"
  by simp

lift_definition z_add :: "z104 \<Rightarrow> z104 \<Rightarrow> z104" is "\<lambda>a b. (a + b) mod 104"
  by simp

lift_definition z_neg :: "z104 \<Rightarrow> z104" is "\<lambda>a. (104 - a) mod 104"
  by simp

definition toy_curve :: "z104 curve" where
  "toy_curve =
     \<lparr>add = z_add, neg = z_neg, ident = z_of_nat 0, gen = z_of_nat 8, order = 13, cofactor = 8,
      compress = (\<lambda>P. copy zero_arr [of_nat (z_val P)]),
      decompress = (\<lambda>bs. if unat (hd (slice bs)) < 104 \<and> tl (slice bs) = replicate 31 0
                          then Some (z_of_nat (unat (hd (slice bs)))) else None),
      expand_seed = (\<lambda>seed. 8 * (1 + unat (hd (slice seed)) mod 12)),
      hash_to_curve = (\<lambda>msg. z_of_nat (8 * (1 + sum_list (map unat msg) mod 12))),
      nonce = (\<lambda>x H. 1 + (x + z_val H) mod 12),
      challenge = (\<lambda>ps. copy zero_arr [of_nat (sum_list (map z_val ps))]),
      output_hash = (\<lambda>bs. copy zero_arr (slice bs @ slice bs))\<rparr>"

text \<open>
  The key pair of the all-zero seed on the small curve, its proof of the empty
  message, and the output of that proof.
\<close>

definition toy_pk :: VrfPubkey where
  "toy_pk = copy zero_arr [64]"


definition toy_proof :: VrfProof where
  "toy_proof = copy zero_arr ((64 # replicate 31 0) @ (224 # replicate 15 0) @ (3 # replicate 31 0))"

definition toy_out :: VrfOutput where
  "toy_out = copy zero_arr ((96 # replicate 31 0) @ (96 # replicate 31 0))"


text \<open>
  The small curve with a hash-to-curve function that maps every message whose
  bytes sum to a multiple of 13, the empty message among them, to the identity;
  and the proof of the empty message under the key of the all-zero seed there.
\<close>

definition flat_curve :: "z104 curve" where
  "flat_curve =
     toy_curve\<lparr>hash_to_curve := (\<lambda>msg. z_of_nat (8 * (sum_list (map unat msg) mod 13)))\<rparr>"


text \<open>A public key that does not decompress on the small curve (its first byte is 200).\<close>

definition bad_pk :: VrfPubkey where
  "bad_pk = copy zero_arr [200]"

text \<open>A hook that switches the backend, as a test comparing both would.\<close>

definition flip_hook :: "bytes hook" where
  "flip_hook pk p message ok out st = Some (SetUseGoImplementation True st)"

section \<open>Arrays: basic facts\<close>

lemma length_slice [simp]: "length (slice (a :: 'n bytearr)) = CARD('n)"
  using Rep_bytearr [of a] by (simp add: slice_def)

lemma slice_zero_arr [simp]: "slice (zero_arr :: 'n bytearr) = replicate CARD('n) 0"
  by (simp add: slice_def zero_arr_def Abs_bytearr_inverse)

lemma slice_copy:
  "slice (copy (dst :: 'n bytearr) src) = take CARD('n) src @ drop (length src) (slice dst)"
proof -
  have "length (take CARD('n) src @ drop (length src) (slice dst)) = CARD('n)"
    by auto
  then show ?thesis
    by (simp add: copy_def slice_def [of "Abs_bytearr _"] Abs_bytearr_inverse)
qed

lemma slice_inject: "slice a = slice b \<longleftrightarrow> a = b"
  by (simp add: slice_def Rep_bytearr_inject)

lemma copy_whole [simp]: "copy (dst :: 'n bytearr) (slice (src :: 'n bytearr)) = src"
  by (simp add: slice_inject [symmetric] slice_copy)

lemma slice_fill [simp]: "slice (fill b :: 'n bytearr) = replicate CARD('n) b"
  by (simp add: fill_def slice_copy)

lemma fill_inject [simp]: "(fill a :: 32 bytearr) = fill b \<longleftrightarrow> a = b"
  "(fill a :: 64 bytearr) = fill b \<longleftrightarrow> a = b"
  "(fill a :: 80 bytearr) = fill b \<longleftrightarrow> a = b"
  by (simp_all add: slice_inject [symmetric])

section \<open>The cgo wrappers never panic\<close>

lemma msg_pointer_defined:
  "(if length msg \<noteq> 0 then addr_of_first msg else Some None) =
   Some (if msg = [] then None else Some msg)"
  by (simp add: addr_of_first_def)

lemma cgovrf_ProveBytes_eq:
  "cgovrf_ProveBytes c sk msg =
     Some (snd (crypto_vrf_prove c zero_arr sk (if msg = [] then None else Some msg) (length msg)),
           fst (crypto_vrf_prove c zero_arr sk (if msg = [] then None else Some msg) (length msg)) = 0)"
  unfolding cgovrf_ProveBytes_def msg_pointer_defined
  by (simp add: split_beta)

lemma cgovrf_VerifyBytes_eq:
  "cgovrf_VerifyBytes c pk proof msg =
     Some (fst (crypto_vrf_verify c zero_arr pk proof (if msg = [] then None else Some msg) (length msg)) = 0,
           snd (crypto_vrf_verify c zero_arr pk proof (if msg = [] then None else Some msg) (length msg)))"
  unfolding cgovrf_VerifyBytes_def msg_pointer_defined
  by (simp add: split_beta)

section \<open>Routing by the flag\<close>

lemma routing_C:
  assumes "\<not> useGoImplementation st"
  shows "VrfKeygenFromSeed c g st seed = cgovrf_VrfKeygenFromSeed c seed"
    and "VrfKeygen c g st rnd = map_option (cgovrf_VrfKeygen c) rnd"
    and "Pubkey c st sk = cgovrf_Pubkey c sk"
    and "proveBytes c g st sk msg = cgovrf_ProveBytes c sk msg"
    and "Hash c st proof = cgovrf_Hash c proof"
    and "verifyBytes c g st pk proof msg = cgovrf_VerifyBytes c pk proof msg"
  using assms
  by (simp_all add: VrfKeygenFromSeed_def VrfKeygen_def Pubkey_def proveBytes_def Hash_def
      verifyBytes_def split_beta cgovrf_ProveBytes_eq cgovrf_VerifyBytes_eq
      split: option.splits)

lemma routing_Go:
  assumes "useGoImplementation st"
  shows "VrfKeygenFromSeed c g st seed = VrfKeygenFromSeedGo g seed"
    and "VrfKeygen c g st rnd = map_option (VrfKeygenFromSeedGo g) rnd"
    and "slice (Pubkey c st sk) = drop 32 (slice sk)"
    and "proveBytes c g st sk msg = Some (proveBytesGo g sk msg)"
    and "verifyBytes c g st pk proof msg = Some (verifyBytesGo g pk proof msg)"
  using assms
  by (simp_all add: VrfKeygenFromSeed_def VrfKeygen_def Pubkey_def proveBytes_def
      verifyBytes_def slice_copy split: option.splits)

lemma Hash_eq: "Hash c st proof = cgovrf_Hash c proof"
  by (simp add: Hash_def split_beta)


text \<open>
  Claim C3. Every entry point is routed by the flag: with the flag set every one of
  them runs the Go backend, with the flag unset every one runs the C backend.
  \<^verbatim>\<open>Hash\<close> does not read the flag. An entry point that ran the Go backend would
  not depend on the C library; with the flag set to \<open>True\<close>, \<^verbatim>\<open>Hash\<close> on the
  all-zero proof returns what the C library in use writes, for every library it
  is the cgovrf wrapper's result, and two libraries that differ give two results.
\<close>

theorem Hash_runs_C_backend_under_Go_flag:
  "Hash c (SetUseGoImplementation True st) proof = cgovrf_Hash c proof \<and>
   SetUseGoImplementation True init_selector = \<lparr>useGoImplementation = True\<rparr> \<and>
   Hash (stub_sodium 1) (SetUseGoImplementation True init_selector) zero_arr = (fill 1, True) \<and>
   Hash (stub_sodium 2) (SetUseGoImplementation True init_selector) zero_arr = (fill 2, True) \<and>
   Hash (stub_sodium 1) (SetUseGoImplementation True init_selector) zero_arr \<noteq>
   Hash (stub_sodium 2) (SetUseGoImplementation True init_selector) zero_arr"
  by (simp add: Hash_eq cgovrf_Hash_def stub_sodium_def SetUseGoImplementation_def init_selector_def)

section \<open>The post-verify hook\<close>

lemma Verify_no_hook:
  "Verify c g HashRep None st pk p message =
     map_option (\<lambda>r. (r, st)) (verifyBytes c g st pk p (HashRep message))"
  by (simp add: Verify_def split: option.splits)

lemma Verify_hook:
  "Verify c g HashRep (Some h) st pk p message =
     (case verifyBytes c g st pk p (HashRep message) of
        None \<Rightarrow> None
      | Some r \<Rightarrow> map_option (\<lambda>st'. (r, st')) (h pk p message (fst r) (snd r) st))"
  by (simp add: Verify_def split: option.splits)

text \<open>
  Claim C7. The pair \<open>(ok, Output)\<close> that \<^verbatim>\<open>Verify\<close> returns is the same whether or
  not a hook is registered. With a hook \<open>h\<close> registered, whenever \<^verbatim>\<open>Verify\<close>
  returns, it returns the pair it returns with no hook; and it does return whenever
  the call without a hook returns and the hook, called on that pair, returns. The
  hook is called on the pair already computed, and only its effect on the package
  state is kept.
\<close>

theorem Verify_hook_keeps_result:
  "(Verify c g HashRep (Some h) st pk p message = Some (r, st') \<longrightarrow>
      Verify c g HashRep None st pk p message = Some (r, st) \<and>
      h pk p message (fst r) (snd r) st = Some st') \<and>
   (Verify c g HashRep None st pk p message = Some (r, st) \<and>
    h pk p message (fst r) (snd r) st = Some st' \<longrightarrow>
      Verify c g HashRep (Some h) st pk p message = Some (r, st'))"
  by (auto simp: Verify_hook Verify_no_hook split: option.splits)

theorem Verify_hook_keeps_result_witness:
  "Verify (stub_sodium 7) (stub_go 9) id (Some flip_hook) init_selector zero_arr zero_arr [1, 2] =
     Some ((True, fill 7), SetUseGoImplementation True init_selector) \<and>
   Verify (stub_sodium 7) (stub_go 9) id None init_selector zero_arr zero_arr [1, 2] =
     Some ((True, fill 7), init_selector) \<and>
   flip_hook zero_arr zero_arr [1, 2] True (fill 7) init_selector =
     Some (SetUseGoImplementation True init_selector)"
proof -
  have run: "Verify (stub_sodium 7) (stub_go 9) id None init_selector zero_arr zero_arr [1, 2] =
      Some ((True, fill 7), init_selector)"
    by (simp add: Verify_no_hook routing_C init_selector_def cgovrf_VerifyBytes_eq stub_sodium_def)
  have hook: "flip_hook zero_arr zero_arr [1, 2] (fst (True, fill 7 :: VrfOutput)) (snd (True, fill 7 :: VrfOutput))
      init_selector = Some (SetUseGoImplementation True init_selector)"
    by (simp add: flip_hook_def)
  from Verify_hook_keeps_result [of "stub_sodium 7" "stub_go 9" id flip_hook init_selector
      zero_arr zero_arr "[1, 2]" "(True, fill 7)" "SetUseGoImplementation True init_selector"]
    run hook
  show ?thesis by (simp add: flip_hook_def)
qed


section \<open>Generating the golden vectors\<close>

lemma gen_keys_msgs_Done:
  "gen_keys_msgs c g lib st rnd r idx = Done kms \<Longrightarrow>
     length kms = length idx \<and> map snd kms = prng_reads lib r (length idx) \<and>
     (\<forall>j<length idx. VrfKeygen c g st (rnd (idx ! j)) = Some (fst (kms ! j)))"
proof (induction idx arbitrary: r kms)
  case Nil
  then show ?case by simp
next
  case (Cons i rest)
  from Cons.prems obtain pk sk msg r' kms' where
    k: "VrfKeygen c g st (rnd i) = Some (pk, sk)" and
    rd: "Read lib r 32 = Some (msg, r')" and
    rec: "gen_keys_msgs c g lib st rnd r' rest = Done kms'" and
    kms: "kms = ((pk, sk), msg) # kms'"
    by (auto split: option.splits outcome.splits)
  from Cons.IH [OF rec] have ih: "length kms' = length rest"
    "map snd kms' = prng_reads lib r' (length rest)"
    "\<forall>j<length rest. VrfKeygen c g st (rnd (rest ! j)) = Some (fst (kms' ! j))"
    by simp_all
  show ?case
    using k rd ih kms by (auto simp: nth_Cons split: nat.splits)
qed

lemma gen_proofs_Done:
  "gen_proofs c g st kms = Done prs \<Longrightarrow> length prs = length kms"
proof (induction kms arbitrary: prs)
  case Nil
  then show ?case by simp
next
  case (Cons km rest)
  obtain pk sk msg where km: "km = ((pk, sk), msg)" by (cases km) auto
  from Cons.prems obtain prs' pr where "gen_proofs c g st rest = Done prs'" "prs = pr # prs'"
    unfolding km
    by (auto split: option.splits outcome.splits if_splits prod.splits)
  with Cons.IH show ?case by simp
qed

lemma golden_vectors_Done:
  assumes "golden_vectors c g lib st rnd = Done t"
  shows "length (Vectors t) = 10"
    and "map Message (Vectors t) = map bytesToHex (prng_reads lib (NewSource lib 42) 10)"
    and "\<forall>i<10. \<exists>pk sk. VrfKeygen c g st (rnd i) = Some (pk, sk) \<and>
            PublicKey (Vectors t ! i) = bytesToHex (slice pk)"
proof -
  from assms obtain kms prs where
    k: "gen_keys_msgs c g lib st rnd (NewSource lib 42) [0..<10] = Done kms" and
    p: "gen_proofs c g st kms = Done prs" and
    t: "Vectors t = map2 make_vector kms prs"
    by (auto simp: golden_vectors_def split: outcome.splits)
  note K = gen_keys_msgs_Done [OF k]
  note P = gen_proofs_Done [OF p]
  from K P have len: "length kms = 10" "length prs = 10" by simp_all
  show "length (Vectors t) = 10" using t len by simp
  have "map Message (Vectors t) = map (bytesToHex \<circ> snd) kms"
    unfolding t using len
    by (intro nth_equalityI) (simp_all add: make_vector_def)
  also have "\<dots> = map bytesToHex (map snd kms)" by simp
  finally show "map Message (Vectors t) = map bytesToHex (prng_reads lib (NewSource lib 42) 10)"
    using K by simp
  show "\<forall>i<10. \<exists>pk sk. VrfKeygen c g st (rnd i) = Some (pk, sk) \<and>
            PublicKey (Vectors t ! i) = bytesToHex (slice pk)"
  proof (intro allI impI)
    fix i :: nat assume i: "i < 10"
    with K have "VrfKeygen c g st (rnd i) = Some (fst (kms ! i))" by simp
    moreover have "PublicKey (Vectors t ! i) = bytesToHex (slice (fst (fst (kms ! i))))"
      using i len by (simp add: t make_vector_def)
    ultimately show "\<exists>pk sk. VrfKeygen c g st (rnd i) = Some (pk, sk) \<and>
            PublicKey (Vectors t ! i) = bytesToHex (slice pk)"
      by (cases "fst (kms ! i)") auto
  qed
qed





subsection \<open>The stand-ins, evaluated\<close>

lemma map2_same: "map2 f (map g xs) (map h xs) = map (\<lambda>x. f (g x) (h x)) xs"
  by (induction xs) simp_all

lemma stub_keygen:
  "VrfKeygen (stub_sodium b) (stub_go b') init_selector (Some r) =
     Some (r, copy zero_arr (slice r @ slice r))"
  by (simp add: VrfKeygen_def init_selector_def cgovrf_VrfKeygen_def stub_sodium_def)

lemma stub_gen_keys_msgs:
  "gen_keys_msgs (stub_sodium b) (stub_go b') stub_stdlib init_selector (\<lambda>i. Some r) k idx =
     Done (map (\<lambda>j. ((r, copy zero_arr (slice r @ slice r)), replicate 32 (of_nat (k + j))))
            [0..<length idx])"
proof (induction idx arbitrary: k)
  case Nil
  then show ?case by simp
next
  case (Cons i rest)
  have "map (\<lambda>j. ((r, copy zero_arr (slice r @ slice r) :: VrfPrivkey),
                  replicate 32 (of_nat (k + j) :: byte))) [0..<Suc (length rest)]
     = ((r, copy zero_arr (slice r @ slice r)), replicate 32 (of_nat k)) #
       map (\<lambda>j. ((r, copy zero_arr (slice r @ slice r)), replicate 32 (of_nat (Suc k + j))))
         [0..<length rest]"
    by (simp add: upt_rec [of 0] map_Suc_upt [symmetric] del: upt_Suc)
  then show ?case
    using Cons.IH [of "Suc k"]
    by (simp add: stub_keygen stub_stdlib_def del: upt_Suc)
qed

lemma stub_gen_proofs:
  "gen_proofs (stub_sodium b) (stub_go b') init_selector kms =
     Done (map (\<lambda>km. ((fill b, fill b), (fill b', fill b'))) kms)"
proof (induction kms)
  case Nil
  then show ?case by simp
next
  case (Cons km rest)
  obtain pk sk msg where km: "km = ((pk, sk), msg)" by (cases km) auto
  show ?case unfolding km using Cons.IH
    by (simp add: routing_C init_selector_def cgovrf_ProveBytes_eq cgovrf_VerifyBytes_eq
        stub_sodium_def stub_go_def)
qed

lemma stub_golden_vectors:
  "golden_vectors (stub_sodium b) (stub_go b') stub_stdlib init_selector (const_entropy e) =
     Done \<lparr>Vectors = map (\<lambda>j. make_vector
                ((fill e, copy zero_arr (slice (fill e :: Seed) @ slice (fill e :: Seed))),
                 replicate 32 (of_nat (42 + j)))
                ((fill b, fill b), (fill b', fill b'))) [0..<10]\<rparr>"
proof -
  have n: "NewSource stub_stdlib 42 = (42::nat)" by (simp add: stub_stdlib_def)
  have e: "const_entropy e = (\<lambda>i. Some (fill e))" by (simp add: const_entropy_def fun_eq_iff)
  show ?thesis
    unfolding golden_vectors_def Let_def n e stub_gen_keys_msgs stub_gen_proofs
    by (simp add: map2_same del: upt_Suc)
qed

lemma stub_generate:
  "generateAndSaveGoldenFile (stub_sodium b) (stub_go b') stub_stdlib init_selector
      (const_entropy e) os goldenPath =
   (if writable os goldenPath then
      Done (os\<lparr>nodes := (nodes os)(goldenPath \<mapsto> File (stub_marshal
        \<lparr>Vectors = map (\<lambda>j. make_vector
                ((fill e, copy zero_arr (slice (fill e :: Seed) @ slice (fill e :: Seed))),
                 replicate 32 (of_nat (42 + j)))
                ((fill b, fill b), (fill b', fill b'))) [0..<10]\<rparr>))\<rparr>)
    else Fatal ''Failed to write golden file'')"
  unfolding generateAndSaveGoldenFile_def stub_golden_vectors
  by (simp add: stub_stdlib_def WriteFile_def del: upt_Suc)

lemma stub_saved_fixture:
  "saved_fixture (generateAndSaveGoldenFile (stub_sodium b) (stub_go b') stub_stdlib init_selector
      (const_entropy e) empty_os goldenPath) =
   Some (stub_marshal \<lparr>Vectors = map (\<lambda>j. make_vector
                ((fill e, copy zero_arr (slice (fill e :: Seed) @ slice (fill e :: Seed))),
                 replicate 32 (of_nat (42 + j)))
                ((fill b, fill b), (fill b', fill b'))) [0..<10]\<rparr>)"
  unfolding stub_generate
  by (simp add: empty_os_def saved_fixture_def ReadFile_def del: upt_Suc)

lemma stub_marshal_second:
  "(stub_marshal \<lparr>Vectors = map (\<lambda>j. make_vector ((fill e, sk), m j) pr) [0..<10]\<rparr>) ! 1
    = of_nat (of_char (hex_digit (unat e mod 16)))"
proof -
  have u: "[0..<10] = 0 # [1..<10]" by (simp add: upt_rec)
  have r: "replicate 32 e = e # e # replicate 30 e" by (simp add: numeral_eq_Suc)
  show ?thesis
    unfolding u
    by (simp add: stub_marshal_def make_vector_def bytesToHex_def chars_to_bytes_def r
        del: upt_Suc)
qed

text \<open>
  Claim C9. Golden-vector generation is deterministic: seeded with the fixed
  constant, the generator produces the keypairs and the messages, so two
  regeneration runs with the same constant produce byte-identical fixture
  contents. The code does not do this. \<^verbatim>\<open>generateAndSaveGoldenFile\<close> creates the
  generator with \<^verbatim>\<open>mathrand.NewSource(42)\<close>, under the comment "Fixed seed for
  reproducibility", and reads only the messages from it; every key pair comes
  from \<^verbatim>\<open>VrfKeygen()\<close>, which takes no seed and draws from the system's random
  source. Two runs on the same backends, the same standard library and the same
  (empty) file system, in which the random source yields the byte 1 to
  \<^verbatim>\<open>VrfKeygen\<close> in one and the byte 2 in the other, both save a fixture, and the
  two fixtures differ.
\<close>

theorem golden_fixture_differs_between_runs:
  "saved_fixture (generateAndSaveGoldenFile (stub_sodium 7) (stub_go 9) stub_stdlib init_selector
      (const_entropy 1) empty_os goldenPath) \<noteq> None \<and>
   saved_fixture (generateAndSaveGoldenFile (stub_sodium 7) (stub_go 9) stub_stdlib init_selector
      (const_entropy 2) empty_os goldenPath) \<noteq> None \<and>
   saved_fixture (generateAndSaveGoldenFile (stub_sodium 7) (stub_go 9) stub_stdlib init_selector
      (const_entropy 1) empty_os goldenPath) \<noteq>
   saved_fixture (generateAndSaveGoldenFile (stub_sodium 7) (stub_go 9) stub_stdlib init_selector
      (const_entropy 2) empty_os goldenPath)"
proof -
  have "stub_marshal \<lparr>Vectors = map (\<lambda>j. make_vector ((fill 1 :: Seed, sk), m j) pr) [0..<10]\<rparr> ! 1 \<noteq>
        stub_marshal \<lparr>Vectors = map (\<lambda>j. make_vector ((fill 2 :: Seed, sk'), m' j) pr') [0..<10]\<rparr> ! 1"
    for sk sk' m m' pr pr'
    unfolding stub_marshal_second by (simp add: hex_digit_def)
  then have "stub_marshal \<lparr>Vectors = map (\<lambda>j. make_vector ((fill 1 :: Seed, sk), m j) pr) [0..<10]\<rparr> \<noteq>
        stub_marshal \<lparr>Vectors = map (\<lambda>j. make_vector ((fill 2 :: Seed, sk'), m' j) pr') [0..<10]\<rparr>"
    for sk sk' m m' pr pr'
    by metis
  then show ?thesis
    unfolding stub_saved_fixture by simp
qed

section \<open>Generating or replaying\<close>





section \<open>The engine: scalars and the group\<close>


lemma length_le_encode [simp]: "length (le_encode k n) = k"
  by (induction k arbitrary: n) simp_all












section \<open>The engine: a proof verifies\<close>


lemma copy_exact_eq:
  "length xs = CARD('n) \<Longrightarrow> xs = slice (a :: 'n bytearr) \<Longrightarrow> copy (zero_arr :: 'n bytearr) xs = a"
  by simp




subsection \<open>The engine behind the selector\<close>

lemma ptr_bytes_msg [simp]: "ptr_bytes (if msg = [] then None else Some msg) (length msg) = msg"
  by (simp add: ptr_bytes_def)

lemma spec_VerifyBytes_rejects: "\<not> fst (spec_VerifyBytes cv pk proof msg) \<Longrightarrow>
    spec_VerifyBytes cv pk proof msg = (False, zero_arr)"
  by (auto simp: spec_VerifyBytes_def Let_def split: option.splits if_splits)







lemma sel_verifyBytes:
  "verifyBytes (spec_sodium cv) (spec_go cv) st pk proof msg =
     Some (spec_VerifyBytes cv pk proof msg)"
proof (cases "useGoImplementation st")
  case True
  then show ?thesis by (simp add: routing_Go spec_go_def)
next
  case False
  show ?thesis
  proof (cases "fst (spec_VerifyBytes cv pk proof msg)")
    case True
    then show ?thesis
      using False
      by (simp add: routing_C cgovrf_VerifyBytes_eq spec_sodium_def split_beta)
        (metis prod.collapse)
  next
    case ok: False
    from spec_VerifyBytes_rejects [OF ok] show ?thesis
      using False
      by (simp add: routing_C cgovrf_VerifyBytes_eq spec_sodium_def)
  qed
qed

section \<open>The small curve, evaluated\<close>

lemma z_val_of_nat [simp]: "z_val (z_of_nat n) = n mod 104"
  by transfer simp

lemma z_val_add [simp]: "z_val (z_add a b) = (z_val a + z_val b) mod 104"
  by transfer simp

lemma z_val_neg [simp]: "z_val (z_neg a) = (104 - z_val a) mod 104"
  by transfer simp


lemma z_eq_iff: "a = b \<longleftrightarrow> z_val a = z_val b"
  by transfer simp

lemma z_of_nat_val [simp]: "z_of_nat (z_val a) = a"
  by transfer simp

lemma toy_smul: "z_val (smul toy_curve n P) = (n * z_val P) mod 104"
proof (induction n)
  case 0
  show ?case by (simp add: toy_curve_def)
next
  case (Suc n)
  have "z_val (smul toy_curve (Suc n) P) = (z_val P + z_val (smul toy_curve n P)) mod 104"
    by (simp add: toy_curve_def)
  then show ?case by (simp add: Suc mod_simps)
qed


lemma slice_single: "slice (copy (zero_arr :: 32 bytearr) [b]) = b # replicate 31 0"
  by (simp add: slice_copy numeral_eq_Suc)



lemma toy_fields [simp]:
  "add toy_curve = z_add" "neg toy_curve = z_neg" "ident toy_curve = z_of_nat 0"
  "gen toy_curve = z_of_nat 8" "order toy_curve = 13" "cofactor toy_curve = 8"
  "compress toy_curve P = copy zero_arr [of_nat (z_val P)]"
  "decompress toy_curve bs = (if unat (hd (slice bs)) < 104 \<and> tl (slice bs) = replicate 31 0
                          then Some (z_of_nat (unat (hd (slice bs)))) else None)"
  "expand_seed toy_curve seed = 8 * (1 + unat (hd (slice seed)) mod 12)"
  "hash_to_curve toy_curve msg = z_of_nat (8 * (1 + sum_list (map unat msg) mod 12))"
  "nonce toy_curve x H = 1 + (x + z_val H) mod 12"
  "challenge toy_curve ps = copy zero_arr [of_nat (sum_list (map z_val ps))]"
  "output_hash toy_curve bs = copy zero_arr (slice bs @ slice bs)"
  by (simp_all add: toy_curve_def)

lemma toy_smul_eq: "smul toy_curve n P = z_of_nat (n * z_val P)"
  by (simp add: z_eq_iff toy_smul)


lemma le_decode_zero [simp]: "le_decode (replicate k 0) = 0"
  by (induction k) simp_all


lemma slice_single16: "slice (copy (zero_arr :: 16 bytearr) [b]) = b # replicate 15 0"
  by (simp add: slice_copy numeral_eq_Suc)




lemma toy_hash: "spec_Hash toy_curve toy_proof = (toy_out, True)"
proof -
  have g: "copy zero_arr (take 32 (slice toy_proof)) = (copy zero_arr [64] :: 32 bytearr)"
    by (simp add: toy_proof_def slice_inject [symmetric] slice_copy)
  show ?thesis
    unfolding spec_Hash_def g
    by (simp add: toy_smul_eq z_eq_iff slice_single torsion_free_def toy_out_def)
qed

lemma toy_verify: "spec_VerifyBytes toy_curve toy_pk toy_proof [] = (True, toy_out)"
proof -
  have g: "copy zero_arr (take 32 (slice toy_proof)) = (copy zero_arr [64] :: 32 bytearr)"
    by (simp add: toy_proof_def slice_inject [symmetric] slice_copy)
  have c: "copy zero_arr (take 16 (drop 32 (slice toy_proof))) = (copy zero_arr [224] :: 16 bytearr)"
    by (simp add: toy_proof_def slice_inject [symmetric] slice_copy)
  have s: "le_decode (drop 48 (slice toy_proof)) = 3"
    by (simp add: toy_proof_def slice_copy)
  show ?thesis
    unfolding spec_VerifyBytes_def toy_pk_def g c s toy_hash
    by (simp add: toy_smul_eq z_eq_iff slice_single slice_single16 torsion_free_def sub_def Let_def)
qed


section \<open>Round trip and rejection\<close>


lemma flat_fields [simp]:
  "add flat_curve = z_add" "neg flat_curve = z_neg" "ident flat_curve = z_of_nat 0"
  "gen flat_curve = z_of_nat 8" "order flat_curve = 13" "cofactor flat_curve = 8"
  "compress flat_curve = compress toy_curve"
  "decompress flat_curve = decompress toy_curve"
  "expand_seed flat_curve = expand_seed toy_curve"
  "hash_to_curve flat_curve msg = z_of_nat (8 * (sum_list (map unat msg) mod 13))"
  "nonce flat_curve = nonce toy_curve"
  "challenge flat_curve = challenge toy_curve"
  "output_hash flat_curve = output_hash toy_curve"
  by (simp_all add: flat_curve_def toy_curve_def)












text \<open>
  Claim C5. For every public key, every proof and every message (the empty one
  included) \<^verbatim>\<open>verifyBytes\<close> returns a pair \<open>(ok, Output)\<close> and does not panic:
  this holds for the selector and the cgo wrapper whatever the two backends
  compute. On the engine modelled from the spec, whenever the public key or
  \<open>Gamma\<close> (the first 32 bytes of the proof) does not decompress, or either
  decompresses to the identity, or \<open>Gamma\<close> carries torsion, the pair is
  \<open>(false, zero)\<close>.
\<close>

theorem verifyBytes_returns_and_rejects:
  "(\<exists>ok out. verifyBytes c g st pk proof msg = Some (ok, out)) \<and>
   (\<exists>ok out. cgovrf_VerifyBytes c pk proof msg = Some (ok, out)) \<and>
   (decompress cv pk = None \<or>
    decompress cv (copy zero_arr (take 32 (slice proof))) = None \<or>
    decompress cv pk = Some (ident cv) \<or>
    decompress cv (copy zero_arr (take 32 (slice proof))) = Some (ident cv) \<or>
    (\<exists>Gamma. decompress cv (copy zero_arr (take 32 (slice proof))) = Some Gamma \<and>
        \<not> torsion_free cv Gamma) \<longrightarrow>
      verifyBytes (spec_sodium cv) (spec_go cv) st pk proof msg = Some (False, zero_arr))"
proof (intro conjI impI)
  show "\<exists>ok out. cgovrf_VerifyBytes c pk proof msg = Some (ok, out)"
    by (simp add: cgovrf_VerifyBytes_eq)
  show "\<exists>ok out. verifyBytes c g st pk proof msg = Some (ok, out)"
  proof (cases "useGoImplementation st")
    case True
    then show ?thesis
      by (cases "verifyBytesGo g pk proof msg") (simp add: routing_Go)
  next
    case False
    then show ?thesis by (simp add: routing_C cgovrf_VerifyBytes_eq)
  qed
next
  assume "decompress cv pk = None \<or>
    decompress cv (copy zero_arr (take 32 (slice proof))) = None \<or>
    decompress cv pk = Some (ident cv) \<or>
    decompress cv (copy zero_arr (take 32 (slice proof))) = Some (ident cv) \<or>
    (\<exists>Gamma. decompress cv (copy zero_arr (take 32 (slice proof))) = Some Gamma \<and>
        \<not> torsion_free cv Gamma)"
  then have "spec_VerifyBytes cv pk proof msg = (False, zero_arr)"
    by (auto simp: spec_VerifyBytes_def split: option.splits)
  then show "verifyBytes (spec_sodium cv) (spec_go cv) st pk proof msg = Some (False, zero_arr)"
    by (simp add: sel_verifyBytes)
qed

theorem verifyBytes_returns_and_rejects_witness:
  "decompress toy_curve bad_pk = None \<and>
   verifyBytes (spec_sodium toy_curve) (spec_go toy_curve) init_selector bad_pk toy_proof [] =
     Some (False, zero_arr) \<and>
   decompress toy_curve zero_arr = Some (ident toy_curve) \<and>
   verifyBytes (spec_sodium toy_curve) (spec_go toy_curve) init_selector zero_arr toy_proof [] =
     Some (False, zero_arr) \<and>
   verifyBytes (spec_sodium toy_curve) (spec_go toy_curve) init_selector toy_pk toy_proof [] =
     Some (True, toy_out)"
proof -
  have b: "decompress toy_curve bad_pk = None"
    by (simp add: bad_pk_def slice_single)
  have z: "decompress toy_curve zero_arr = Some (ident toy_curve)"
    by (simp add: numeral_eq_Suc)
  have v: "verifyBytes (spec_sodium toy_curve) (spec_go toy_curve) init_selector toy_pk toy_proof [] =
     Some (True, toy_out)"
    by (simp add: sel_verifyBytes toy_verify)
  from verifyBytes_returns_and_rejects [of "spec_sodium toy_curve" "spec_go toy_curve"
      init_selector bad_pk toy_proof "[]" toy_curve] b
  have r1: "verifyBytes (spec_sodium toy_curve) (spec_go toy_curve) init_selector bad_pk toy_proof [] =
     Some (False, zero_arr)"
    by blast
  from verifyBytes_returns_and_rejects [of "spec_sodium toy_curve" "spec_go toy_curve"
      init_selector zero_arr toy_proof "[]" toy_curve] z
  have r2: "verifyBytes (spec_sodium toy_curve) (spec_go toy_curve) init_selector zero_arr toy_proof [] =
     Some (False, zero_arr)"
    by blast
  from b z v r1 r2 show ?thesis by blast
qed


end
